theory Spec2Isabelle
  imports Complex_Main "HOL-Library.Sublist"
begin

section \<open>Go values as seen through an \<open>any\<close> and package reflect\<close>

text \<open>
  The active variant of bumert (\<^verbatim>\<open>bumert_debug.go\<close>) holds one value of type \<open>any\<close>
  and inspects it with package \<open>reflect\<close>. The embedding therefore starts with the part of
  Go's dynamic values that the predicates can observe: the kind, the dynamic type, nil
  handles of the nilable kinds, lengths, and the contents that \<open>reflect.DeepEqual\<close> and
  \<open>Value.IsZero\<close> walk over.
\<close>

subsection \<open>Kinds\<close>

text \<open>\<open>reflect.Kind\<close>, in the order of its declaration (\<open>Invalid = 0\<close> up to \<open>UnsafePointer = 26\<close>).\<close>

datatype kind =
    reflect_Invalid | reflect_Bool
  | reflect_Int | reflect_Int8 | reflect_Int16 | reflect_Int32 | reflect_Int64
  | reflect_Uint | reflect_Uint8 | reflect_Uint16 | reflect_Uint32 | reflect_Uint64 | reflect_Uintptr
  | reflect_Float32 | reflect_Float64 | reflect_Complex64 | reflect_Complex128
  | reflect_Array | reflect_Chan | reflect_Func | reflect_Interface | reflect_Map | reflect_Pointer | reflect_Slice | reflect_String | reflect_Struct | reflect_UnsafePointer

fun kind_num :: "kind \<Rightarrow> nat" where
  "kind_num reflect_Invalid = 0" | "kind_num reflect_Bool = 1"
| "kind_num reflect_Int = 2" | "kind_num reflect_Int8 = 3" | "kind_num reflect_Int16 = 4" | "kind_num reflect_Int32 = 5"
| "kind_num reflect_Int64 = 6"
| "kind_num reflect_Uint = 7" | "kind_num reflect_Uint8 = 8" | "kind_num reflect_Uint16 = 9" | "kind_num reflect_Uint32 = 10"
| "kind_num reflect_Uint64 = 11" | "kind_num reflect_Uintptr = 12"
| "kind_num reflect_Float32 = 13" | "kind_num reflect_Float64 = 14"
| "kind_num reflect_Complex64 = 15" | "kind_num reflect_Complex128 = 16"
| "kind_num reflect_Array = 17" | "kind_num reflect_Chan = 18" | "kind_num reflect_Func = 19"
| "kind_num reflect_Interface = 20" | "kind_num reflect_Map = 21" | "kind_num reflect_Pointer = 22"
| "kind_num reflect_Slice = 23" | "kind_num reflect_String = 24" | "kind_num reflect_Struct = 25"
| "kind_num reflect_UnsafePointer = 26"

datatype int_kind = KInt | KInt8 | KInt16 | KInt32 | KInt64
datatype uint_kind = KUint | KUint8 | KUint16 | KUint32 | KUint64 | KUintptr
datatype float_kind = KFloat32 | KFloat64
datatype complex_kind = KComplex64 | KComplex128

fun int_kind_of :: "int_kind \<Rightarrow> kind" where
  "int_kind_of KInt = reflect_Int" | "int_kind_of KInt8 = reflect_Int8" | "int_kind_of KInt16 = reflect_Int16"
| "int_kind_of KInt32 = reflect_Int32" | "int_kind_of KInt64 = reflect_Int64"

fun uint_kind_of :: "uint_kind \<Rightarrow> kind" where
  "uint_kind_of KUint = reflect_Uint" | "uint_kind_of KUint8 = reflect_Uint8" | "uint_kind_of KUint16 = reflect_Uint16"
| "uint_kind_of KUint32 = reflect_Uint32" | "uint_kind_of KUint64 = reflect_Uint64"
| "uint_kind_of KUintptr = reflect_Uintptr"

fun float_kind_of :: "float_kind \<Rightarrow> kind" where
  "float_kind_of KFloat32 = reflect_Float32" | "float_kind_of KFloat64 = reflect_Float64"

fun complex_kind_of :: "complex_kind \<Rightarrow> kind" where
  "complex_kind_of KComplex64 = reflect_Complex64" | "complex_kind_of KComplex128 = reflect_Complex128"

subsection \<open>Types\<close>

text \<open>
  A Go type as \<open>reflect.Type\<close> identifies it: the predeclared types, the composite types
  built from element types, and defined (named) types with their qualified name and
  underlying type. Two values have the same type iff their \<open>gotype\<close>s are equal.
\<close>

datatype gotype =
    TBool
  | TInt int_kind
  | TUint uint_kind
  | TFloat float_kind
  | TComplex complex_kind
  | TString
  | TUnsafePointer
  | TArray nat gotype
  | TChan gotype
  | TFunc "gotype list" "gotype list"
  | TInterface "string list"
  | TMap gotype gotype
  | TPtr gotype
  | TSlice gotype
  | TStruct "(string \<times> gotype) list"
  | TDefined string gotype

fun type_Kind :: "gotype \<Rightarrow> kind" where
  "type_Kind TBool = reflect_Bool"
| "type_Kind (TInt k) = int_kind_of k"
| "type_Kind (TUint k) = uint_kind_of k"
| "type_Kind (TFloat k) = float_kind_of k"
| "type_Kind (TComplex k) = complex_kind_of k"
| "type_Kind TString = reflect_String"
| "type_Kind TUnsafePointer = reflect_UnsafePointer"
| "type_Kind (TArray n t) = reflect_Array"
| "type_Kind (TChan t) = reflect_Chan"
| "type_Kind (TFunc ins outs) = reflect_Func"
| "type_Kind (TInterface ms) = reflect_Interface"
| "type_Kind (TMap k t) = reflect_Map"
| "type_Kind (TPtr t) = reflect_Pointer"
| "type_Kind (TSlice t) = reflect_Slice"
| "type_Kind (TStruct fs) = reflect_Struct"
| "type_Kind (TDefined n t) = type_Kind t"

text \<open>A defined type is written by its name; \<open>None\<close> is the unnamed (literal) type.\<close>

type_synonym tyname = "string option"

fun named :: "tyname \<Rightarrow> gotype \<Rightarrow> gotype" where
  "named None t = t"
| "named (Some n) t = TDefined n t"

subsection \<open>Floating-point values\<close>

text \<open>
  An IEEE 754 binary64 value, as far as comparison can tell values apart: not-a-number,
  the two infinities, negative zero, and the finite values by their exact rational value
  (\<open>Fin 0\<close> is positive zero). \<open>Value.Float\<close> returns a \<open>float64\<close> for both float kinds.
\<close>

datatype f64 = NaN | NegInf | PosInf | NegZero | Fin rat

text \<open>Position on the extended number line; \<open>None\<close> for not-a-number, which is unordered.\<close>

fun f64_pos :: "f64 \<Rightarrow> (int \<times> rat) option" where
  "f64_pos NaN = None"
| "f64_pos NegInf = Some (-1, 0)"
| "f64_pos PosInf = Some (1, 0)"
| "f64_pos NegZero = Some (0, 0)"
| "f64_pos (Fin r) = Some (0, r)"

definition f64_lt :: "f64 \<Rightarrow> f64 \<Rightarrow> bool" where
  "f64_lt a b = (case (f64_pos a, f64_pos b) of
       (Some (i, x), Some (j, y)) \<Rightarrow> i < j \<or> (i = j \<and> x < y)
     | _ \<Rightarrow> False)"

definition f64_eq :: "f64 \<Rightarrow> f64 \<Rightarrow> bool" where
  "f64_eq a b = (case (f64_pos a, f64_pos b) of
       (Some (i, x), Some (j, y)) \<Rightarrow> i = j \<and> x = y
     | _ \<Rightarrow> False)"

definition f64_le :: "f64 \<Rightarrow> f64 \<Rightarrow> bool" where
  "f64_le a b = (f64_lt a b \<or> f64_eq a b)"

definition f64_gt :: "f64 \<Rightarrow> f64 \<Rightarrow> bool" where
  "f64_gt a b = f64_lt b a"

definition f64_ge :: "f64 \<Rightarrow> f64 \<Rightarrow> bool" where
  "f64_ge a b = f64_le b a"

subsection \<open>Values\<close>

text \<open>
  The dynamic value inside an \<open>any\<close>. \<open>VNil\<close> is the nil interface (no dynamic type).
  Every other constructor fixes the kind; its first argument is the name of a defined type
  or \<open>None\<close>. The nilable kinds carry an optional handle: \<open>None\<close> is the typed nil, \<open>Some\<close>
  carries the address (identity) of the object and what can be read through it. A channel
  shows only its identity and the number of queued elements. \<open>VIface\<close> is a value of static
  interface type, which occurs only as an element or field: it wraps the dynamic value.
  Values are finite trees, so cyclic pointer structures are outside the model.
\<close>

datatype goval =
    VNil
  | VBool tyname bool
  | VInt tyname int_kind int
  | VUint tyname uint_kind nat
  | VFloat tyname float_kind f64
  | VComplex tyname complex_kind f64 f64
  | VString tyname string
  | VUnsafePointer tyname nat
  | VArray tyname gotype "goval list"
  | VChan tyname gotype "(nat \<times> nat) option"
  | VFunc tyname "gotype list" "gotype list" "nat option"
  | VIface tyname "string list" goval
  | VMap tyname gotype gotype "(nat \<times> (goval \<times> goval) list) option"
  | VPtr tyname gotype "(nat \<times> goval) option"
  | VSlice tyname gotype "(nat \<times> goval list) option"
  | VStruct tyname "(string \<times> goval) list"

text \<open>
  \<open>reflect.ValueOf(x).Kind()\<close>: the zero \<open>Value\<close> that \<open>ValueOf(nil)\<close> returns has kind
  \<open>reflect_Invalid\<close>.
\<close>

fun Kind :: "goval \<Rightarrow> kind" where
  "Kind VNil = reflect_Invalid"
| "Kind (VBool n b) = reflect_Bool"
| "Kind (VInt n k i) = int_kind_of k"
| "Kind (VUint n k u) = uint_kind_of k"
| "Kind (VFloat n k f) = float_kind_of k"
| "Kind (VComplex n k re im) = complex_kind_of k"
| "Kind (VString n s) = reflect_String"
| "Kind (VUnsafePointer n p) = reflect_UnsafePointer"
| "Kind (VArray n t xs) = reflect_Array"
| "Kind (VChan n t h) = reflect_Chan"
| "Kind (VFunc n ins outs h) = reflect_Func"
| "Kind (VIface n ms v) = reflect_Interface"
| "Kind (VMap n k t h) = reflect_Map"
| "Kind (VPtr n t h) = reflect_Pointer"
| "Kind (VSlice n t h) = reflect_Slice"
| "Kind (VStruct n fs) = reflect_Struct"

text \<open>
  \<open>Value.IsNil\<close>. It panics on the kinds that cannot be nil; the callers below guard it
  by kind, so the model returns \<open>False\<close> there and the guard is part of each caller.
\<close>

fun IsNil :: "goval \<Rightarrow> bool" where
  "IsNil (VChan n t h) = (h = None)"
| "IsNil (VFunc n ins outs h) = (h = None)"
| "IsNil (VIface n ms v) = (v = VNil)"
| "IsNil (VMap n k t h) = (h = None)"
| "IsNil (VPtr n t h) = (h = None)"
| "IsNil (VSlice n t h) = (h = None)"
| "IsNil (VUnsafePointer n p) = (p = 0)"
| "IsNil v = False"

section \<open>Panics, call stacks and the diagnostic\<close>

text \<open>
  A panic is a value of the model: the string payload that bumert builds itself, the
  \<open>*reflect.ValueError\<close> that package reflect raises on a zero \<open>Value\<close>, a run-time error,
  or whatever a caller-supplied function panics with.
\<close>

datatype panic =
    PanicString string
  | PanicValueError string kind
  | PanicRuntimeError string
  | PanicForeign string

type_synonym 'a result = "panic + 'a"

text \<open>
  A stack is the list of call sites, innermost first: the head is the position (file,
  line) from which the running function was called. \<open>runtime.Caller(skip)\<close> numbers the
  frames from the function that calls it (frame 0, at the line of the call itself).
\<close>

type_synonym frame = "string \<times> int"

definition runtime_Caller :: "frame list \<Rightarrow> nat \<Rightarrow> frame option" where
  "runtime_Caller frames skip = (if skip < length frames then Some (frames ! skip) else None)"

text \<open>The source file of the active variant, as the Makefile names it.\<close>

definition debug_file :: string where
  "debug_file = ''bumert/bumert_debug.go''"

text \<open>\<open>strings.LastIndex(s, sep)\<close> for a one-byte separator: the last index of it, or -1.\<close>

fun LastIndex :: "string \<Rightarrow> char \<Rightarrow> int" where
  "LastIndex [] c = -1"
| "LastIndex (x # xs) c =
     (let r = LastIndex xs c in if r \<ge> 0 then r + 1 else if x = c then 0 else -1)"

text \<open>\<open>%d\<close> of \<open>fmt.Sprintf\<close>: the decimal digits, with a minus sign below zero.\<close>

definition digit_char :: "nat \<Rightarrow> char" where
  "digit_char d = char_of (48 + d)"

function show_nat :: "nat \<Rightarrow> string" where
  "show_nat n = (if n < 10 then [digit_char n] else show_nat (n div 10) @ [digit_char (n mod 10)])"
  by pat_completeness auto
termination
  by (relation "measure id") auto

definition show_int :: "int \<Rightarrow> string" where
  "show_int i = (if i < 0 then CHR ''-'' # show_nat (nat (- i)) else show_nat (nat i))"

text \<open>
  \<open>getCallerInfo\<close>, given the stack on which it was called. The call of \<open>runtime.Caller\<close>
  is at line 16 of the file.
\<close>

definition getCallerInfo :: "frame list \<Rightarrow> nat \<Rightarrow> string" where
  "getCallerInfo stk skipFrames =
     (case runtime_Caller ((debug_file, 16) # stk) (skipFrames + 1) of
        None \<Rightarrow> ''???:?''
      | Some (file, line) \<Rightarrow>
          (let lastSlash = LastIndex file (CHR ''/'');
               file' = (if lastSlash \<ge> 0 then drop (nat (lastSlash + 1)) file else file)
           in file' @ '':'' @ show_int line))"

text \<open>
  \<open>failAssertion\<close>, given the stack on which it was called and the message already
  formatted from \<open>format\<close> and \<open>args\<close>. It calls \<open>getCallerInfo(2)\<close> at line 30 and always
  panics.
\<close>

definition failAssertion :: "frame list \<Rightarrow> string \<Rightarrow> 'a result" where
  "failAssertion stk msg =
     (let callerInfo = getCallerInfo ((debug_file, 30) # stk) 2
      in Inl (PanicString (callerInfo @ '': assertion failed: '' @ msg)))"

subsection \<open>Types of values, lengths, zero values\<close>

text \<open>
  \<open>Value.Type\<close>: the dynamic type, read off the value. On the zero \<open>Value\<close> it panics with
  a \<open>*reflect.ValueError\<close>.
\<close>

fun TypeOf :: "goval \<Rightarrow> gotype"
  and TypeOf_fields :: "(string \<times> goval) list \<Rightarrow> (string \<times> gotype) list" where
  "TypeOf VNil = TInterface []"
| "TypeOf (VBool n b) = named n TBool"
| "TypeOf (VInt n k i) = named n (TInt k)"
| "TypeOf (VUint n k u) = named n (TUint k)"
| "TypeOf (VFloat n k f) = named n (TFloat k)"
| "TypeOf (VComplex n k re im) = named n (TComplex k)"
| "TypeOf (VString n s) = named n TString"
| "TypeOf (VUnsafePointer n p) = named n TUnsafePointer"
| "TypeOf (VArray n t xs) = named n (TArray (length xs) t)"
| "TypeOf (VChan n t h) = named n (TChan t)"
| "TypeOf (VFunc n ins outs h) = named n (TFunc ins outs)"
| "TypeOf (VIface n ms v) = named n (TInterface ms)"
| "TypeOf (VMap n k t h) = named n (TMap k t)"
| "TypeOf (VPtr n t h) = named n (TPtr t)"
| "TypeOf (VSlice n t h) = named n (TSlice t)"
| "TypeOf (VStruct n fs) = named n (TStruct (TypeOf_fields fs))"
| "TypeOf_fields [] = []"
| "TypeOf_fields (fv # fs) = (fst fv, TypeOf (snd fv)) # TypeOf_fields fs"

definition Value_Type :: "goval \<Rightarrow> gotype result" where
  "Value_Type v =
     (if v = VNil then Inl (PanicValueError ''reflect.Value.Type'' reflect_Invalid)
      else Inr (TypeOf v))"

text \<open>
  \<open>Value.Len\<close> on the kinds that have a length (a nil slice, map or channel has length 0;
  a string counts bytes), and the accessors \<open>Value.Int\<close>, \<open>Value.Uint\<close>, \<open>Value.Float\<close>.
  Each of them panics on other kinds; every caller below switches on the kind first, and
  the value returned here for the other kinds is never used.
\<close>

fun Len :: "goval \<Rightarrow> int" where
  "Len (VArray n t xs) = int (length xs)"
| "Len (VChan n t h) = (case h of None \<Rightarrow> 0 | Some (c, queued) \<Rightarrow> int queued)"
| "Len (VMap n k t h) = (case h of None \<Rightarrow> 0 | Some (m, entries) \<Rightarrow> int (length entries))"
| "Len (VSlice n t h) = (case h of None \<Rightarrow> 0 | Some (p, xs) \<Rightarrow> int (length xs))"
| "Len (VString n s) = int (length s)"
| "Len v = 0"

fun Value_Int :: "goval \<Rightarrow> int" where
  "Value_Int (VInt n k i) = i"
| "Value_Int v = 0"

fun Value_Uint :: "goval \<Rightarrow> nat" where
  "Value_Uint (VUint n k u) = u"
| "Value_Uint v = 0"

fun Value_Float :: "goval \<Rightarrow> f64" where
  "Value_Float (VFloat n k f) = f"
| "Value_Float v = Fin 0"

text \<open>
  \<open>Value.IsZero\<close> (as of Go 1.22, where a floating-point zero of either sign is zero):
  by value for the scalars, element-wise for arrays, field-wise for structs, and the nil
  handle for the nilable kinds.
\<close>

fun IsZero :: "goval \<Rightarrow> bool"
  and IsZero_all :: "goval list \<Rightarrow> bool"
  and IsZero_fields :: "(string \<times> goval) list \<Rightarrow> bool" where
  "IsZero VNil = False"
| "IsZero (VBool n b) = (\<not> b)"
| "IsZero (VInt n k i) = (i = 0)"
| "IsZero (VUint n k u) = (u = 0)"
| "IsZero (VFloat n k f) = f64_eq f (Fin 0)"
| "IsZero (VComplex n k re im) = (f64_eq re (Fin 0) \<and> f64_eq im (Fin 0))"
| "IsZero (VString n s) = (length s = 0)"
| "IsZero (VUnsafePointer n p) = (p = 0)"
| "IsZero (VArray n t xs) = IsZero_all xs"
| "IsZero (VChan n t h) = (h = None)"
| "IsZero (VFunc n ins outs h) = (h = None)"
| "IsZero (VIface n ms v) = (v = VNil)"
| "IsZero (VMap n k t h) = (h = None)"
| "IsZero (VPtr n t h) = (h = None)"
| "IsZero (VSlice n t h) = (h = None)"
| "IsZero (VStruct n fs) = IsZero_fields fs"
| "IsZero_all [] = True"
| "IsZero_all (x # xs) = (IsZero x \<and> IsZero_all xs)"
| "IsZero_fields [] = True"
| "IsZero_fields (fv # fs) = (IsZero (snd fv) \<and> IsZero_fields fs)"

text \<open>
  What the predicates take from their surroundings: the stack on which the predicate was
  called (its head is the call site of the predicate), the verbs \<open>%v\<close> and \<open>%#v\<close> of
  package fmt that render a value into a message, and \<open>Type.String\<close>, which names a type.
\<close>

record rt =
  stack :: "frame list"
  fmt_v :: "goval \<Rightarrow> string"
  fmt_sharp_v :: "goval \<Rightarrow> string"
  type_String :: "gotype \<Rightarrow> string"

text \<open>The verb \<open>%T\<close>: the name of the dynamic type, and \<open><nil>\<close> for the nil interface.\<close>

definition fmt_T :: "rt \<Rightarrow> goval \<Rightarrow> string" where
  "fmt_T r v = (if v = VNil then ''<nil>'' else type_String r (TypeOf v))"

text \<open>A call of \<open>failAssertion\<close> from line \<open>l\<close> of a predicate.\<close>

definition fail_at :: "rt \<Rightarrow> int \<Rightarrow> string \<Rightarrow> 'a result" where
  "fail_at r l msg = failAssertion ((debug_file, l) # stack r) msg"

section \<open>The active variant\<close>

record Assertion =
  "value" :: goval

definition Should :: "goval \<Rightarrow> Assertion" where
  "Should v = \<lparr> value = v \<rparr>"

definition isNil :: "goval \<Rightarrow> bool" where
  "isNil v =
     (if v = VNil then True
      else (case Kind v of
              reflect_Chan \<Rightarrow> IsNil v | reflect_Func \<Rightarrow> IsNil v | reflect_Interface \<Rightarrow> IsNil v
            | reflect_Map \<Rightarrow> IsNil v | reflect_Pointer \<Rightarrow> IsNil v | reflect_Slice \<Rightarrow> IsNil v
            | _ \<Rightarrow> False))"

definition BeNil :: "rt \<Rightarrow> Assertion \<Rightarrow> Assertion result" where
  "BeNil r a =
     (if \<not> isNil (value a)
      then fail_at r 71 (''should be nil: value ('' @ fmt_sharp_v r (value a) @ '') of type ''
                          @ fmt_T r (value a) @ '' is not nil'')
      else Inr a)"

definition NotBeNil :: "rt \<Rightarrow> Assertion \<Rightarrow> Assertion result" where
  "NotBeNil r a =
     (if isNil (value a)
      then fail_at r 80 ''should not be nil: value is nil''
      else Inr a)"

text \<open>
  The argument of \<open>TrueFn\<close>: a nil function value, or a function with what a call of it
  does (it returns a boolean or panics).
\<close>

datatype boolfn = NilFunc | GoFunc "bool result"

definition TrueFn :: "rt \<Rightarrow> Assertion \<Rightarrow> boolfn \<Rightarrow> Assertion result" where
  "TrueFn r a f =
     (case f of
        NilFunc \<Rightarrow> Inl (PanicRuntimeError ''invalid memory address or nil pointer dereference'')
      | GoFunc (Inl p) \<Rightarrow> Inl p
      | GoFunc (Inr b) \<Rightarrow> if \<not> b then fail_at r 90 ''function returned false'' else Inr a)"

text \<open>
  The type assertion \<open>a.value.(bool)\<close> succeeds only for the predeclared type \<open>bool\<close>, and
  \<open>a.value.(string)\<close> only for \<open>string\<close>; a defined type of the same kind fails it.
\<close>

fun assert_bool :: "goval \<Rightarrow> bool \<times> bool" where
  "assert_bool (VBool None b) = (b, True)"
| "assert_bool v = (False, False)"

fun assert_string :: "goval \<Rightarrow> string \<times> bool" where
  "assert_string (VString None s) = (s, True)"
| "assert_string v = ([], False)"

definition BeTrue :: "rt \<Rightarrow> Assertion \<Rightarrow> Assertion result" where
  "BeTrue r a =
     (let (b, ok) = assert_bool (value a) in
      if \<not> ok \<or> \<not> b
      then fail_at r 101 (''should be true, but got: '' @ fmt_sharp_v r (value a)
                           @ '' (type '' @ fmt_T r (value a) @ '')'')
      else Inr a)"

definition BeFalse :: "rt \<Rightarrow> Assertion \<Rightarrow> Assertion result" where
  "BeFalse r a =
     (let (b, ok) = assert_bool (value a) in
      if \<not> ok \<or> b
      then fail_at r 110 (''should be false, but got: '' @ fmt_sharp_v r (value a)
                           @ '' (type '' @ fmt_T r (value a) @ '')'')
      else Inr a)"

definition getLength :: "goval \<Rightarrow> int \<times> bool" where
  "getLength v =
     (if v = VNil then (-1, False)
      else (case Kind v of
              reflect_Array \<Rightarrow> (Len v, True) | reflect_Chan \<Rightarrow> (Len v, True)
            | reflect_Map \<Rightarrow> (Len v, True) | reflect_Slice \<Rightarrow> (Len v, True)
            | reflect_String \<Rightarrow> (Len v, True)
            | _ \<Rightarrow> (-1, False)))"

definition BeEmpty :: "rt \<Rightarrow> Assertion \<Rightarrow> Assertion result" where
  "BeEmpty r a =
     (if isNil (value a) then Inr a
      else (let (len, ok) = getLength (value a) in
            if ok then
              (if len = 0 then Inr a
               else fail_at r 163 (''should be empty, but got length '' @ show_int len @ '': ''
                                    @ fmt_sharp_v r (value a)))
            else fail_at r 166 (''should be empty, but got non-nil, non-length-testable value: ''
                                 @ fmt_sharp_v r (value a) @ '' (type '' @ fmt_T r (value a)
                                 @ '')'')))"

definition NotBeEmpty :: "rt \<Rightarrow> Assertion \<Rightarrow> Assertion result" where
  "NotBeEmpty r a =
     (if isNil (value a) then fail_at r 175 ''should not be empty, but got nil''
      else (let (len, ok) = getLength (value a) in
            if ok \<and> len = 0
            then fail_at r 178 (''should not be empty, but got zero length: ''
                                 @ fmt_sharp_v r (value a))
            else Inr a))"

definition HaveLen :: "rt \<Rightarrow> Assertion \<Rightarrow> int \<Rightarrow> Assertion result" where
  "HaveLen r a expectedLen =
     (let (len, ok) = getLength (value a) in
      if ok then
        (if len \<noteq> expectedLen
         then fail_at r 189 (''should have length '' @ show_int expectedLen @ '', but got ''
                              @ show_int len @ '': '' @ fmt_sharp_v r (value a))
         else Inr a)
      else fail_at r 192 (''should have length, but got non-length-testable value: ''
                           @ fmt_sharp_v r (value a) @ '' (type '' @ fmt_T r (value a) @ '')''))"

definition isZero :: "goval \<Rightarrow> bool" where
  "isZero v = (if v = VNil then True else IsZero v)"

definition BeZero :: "rt \<Rightarrow> Assertion \<Rightarrow> Assertion result" where
  "BeZero r a =
     (if \<not> isZero (value a)
      then fail_at r 316 (''should be the zero value, but got: '' @ fmt_sharp_v r (value a)
                           @ '' (type '' @ fmt_T r (value a) @ '')'')
      else Inr a)"

definition NotBeZero :: "rt \<Rightarrow> Assertion \<Rightarrow> Assertion result" where
  "NotBeZero r a =
     (if isZero (value a)
      then fail_at r 325 (''should not be the zero value, but got: '' @ fmt_sharp_v r (value a)
                           @ '' (type '' @ fmt_T r (value a) @ '')'')
      else Inr a)"


section \<open>The inert variant\<close>

text \<open>
  The release build (\<^verbatim>\<open>bumert_release.go\<close>, generated) declares \<open>Assertion\<close> as an empty
  struct. A \<open>*Assertion\<close> is nil or the address of an \<open>Assertion\<close> variable; \<open>Should\<close> returns
  the address of the package variable \<open>noOpAssertion\<close>. Every method returns its receiver.
  The methods are given the result type of the active variant, so that raising nothing is
  a property one can state.
\<close>

type_synonym release_ptr = "nat option"

definition noOpAssertion :: nat where
  "noOpAssertion = 0"

definition release_Should :: "goval \<Rightarrow> release_ptr" where
  "release_Should v = Some noOpAssertion"

definition release_BeNil :: "release_ptr \<Rightarrow> release_ptr result" where
  "release_BeNil a = Inr a"

definition release_NotBeNil :: "release_ptr \<Rightarrow> release_ptr result" where
  "release_NotBeNil a = Inr a"

definition release_TrueFn :: "release_ptr \<Rightarrow> boolfn \<Rightarrow> release_ptr result" where
  "release_TrueFn a f = Inr a"

definition release_BeTrue :: "release_ptr \<Rightarrow> release_ptr result" where
  "release_BeTrue a = Inr a"

definition release_BeFalse :: "release_ptr \<Rightarrow> release_ptr result" where
  "release_BeFalse a = Inr a"

definition release_BeEqual :: "release_ptr \<Rightarrow> goval \<Rightarrow> release_ptr result" where
  "release_BeEqual a expected = Inr a"

definition release_NotBeEqual :: "release_ptr \<Rightarrow> goval \<Rightarrow> release_ptr result" where
  "release_NotBeEqual a unexpected = Inr a"

definition release_BeEmpty :: "release_ptr \<Rightarrow> release_ptr result" where
  "release_BeEmpty a = Inr a"

definition release_NotBeEmpty :: "release_ptr \<Rightarrow> release_ptr result" where
  "release_NotBeEmpty a = Inr a"

definition release_HaveLen :: "release_ptr \<Rightarrow> int \<Rightarrow> release_ptr result" where
  "release_HaveLen a expectedLen = Inr a"

definition release_Contain :: "release_ptr \<Rightarrow> goval \<Rightarrow> release_ptr result" where
  "release_Contain a expectedElement = Inr a"

definition release_NotContain :: "release_ptr \<Rightarrow> goval \<Rightarrow> release_ptr result" where
  "release_NotContain a unexpectedElement = Inr a"

definition release_ContainSubstring :: "release_ptr \<Rightarrow> string \<Rightarrow> release_ptr result" where
  "release_ContainSubstring a substring = Inr a"

definition release_HavePrefix :: "release_ptr \<Rightarrow> string \<Rightarrow> release_ptr result" where
  "release_HavePrefix a pre = Inr a"

definition release_HaveSuffix :: "release_ptr \<Rightarrow> string \<Rightarrow> release_ptr result" where
  "release_HaveSuffix a suf = Inr a"

definition release_BeZero :: "release_ptr \<Rightarrow> release_ptr result" where
  "release_BeZero a = Inr a"

definition release_NotBeZero :: "release_ptr \<Rightarrow> release_ptr result" where
  "release_NotBeZero a = Inr a"

definition release_BeGreaterThan :: "release_ptr \<Rightarrow> goval \<Rightarrow> release_ptr result" where
  "release_BeGreaterThan a expected = Inr a"

definition release_BeLessThan :: "release_ptr \<Rightarrow> goval \<Rightarrow> release_ptr result" where
  "release_BeLessThan a expected = Inr a"

definition release_BeGreaterThanOrEqualTo :: "release_ptr \<Rightarrow> goval \<Rightarrow> release_ptr result" where
  "release_BeGreaterThanOrEqualTo a expected = Inr a"

definition release_BeLessThanOrEqualTo :: "release_ptr \<Rightarrow> goval \<Rightarrow> release_ptr result" where
  "release_BeLessThanOrEqualTo a expected = Inr a"

definition release_BeError :: "release_ptr \<Rightarrow> release_ptr result" where
  "release_BeError a = Inr a"

definition release_NotBeError :: "release_ptr \<Rightarrow> release_ptr result" where
  "release_NotBeError a = Inr a"

definition release_BeErrorOfType :: "release_ptr \<Rightarrow> goval \<Rightarrow> release_ptr result" where
  "release_BeErrorOfType a target = Inr a"

definition release_BeErrorWithMessage :: "release_ptr \<Rightarrow> string \<Rightarrow> release_ptr result" where
  "release_BeErrorWithMessage a substring = Inr a"

text \<open>\<open>Assert\<close> and \<open>Assertf\<close> of the release build have empty bodies.\<close>

definition release_Assert :: "bool \<Rightarrow> unit result" where
  "release_Assert condition = Inr ()"

definition release_Assertf :: "bool \<Rightarrow> string \<Rightarrow> goval list \<Rightarrow> unit result" where
  "release_Assertf condition format args = Inr ()"

section \<open>Properties\<close>

subsection \<open>The inert variant never raises\<close>

lemmas release_defs =
  release_BeNil_def release_NotBeNil_def release_TrueFn_def release_BeTrue_def
  release_BeFalse_def release_BeEqual_def release_NotBeEqual_def release_BeEmpty_def
  release_NotBeEmpty_def release_HaveLen_def release_Contain_def release_NotContain_def
  release_ContainSubstring_def release_HavePrefix_def release_HaveSuffix_def release_BeZero_def
  release_NotBeZero_def release_BeGreaterThan_def release_BeLessThan_def
  release_BeGreaterThanOrEqualTo_def release_BeLessThanOrEqualTo_def release_BeError_def
  release_NotBeError_def release_BeErrorOfType_def release_BeErrorWithMessage_def

text \<open>
  Claim C1. In the release build every predicate method, on every receiver and every
  argument, returns normally and returns its receiver; this includes a nil target given to
  \<open>BeErrorOfType\<close> and a function returning false (or a nil function) given to \<open>TrueFn\<close>.
  The handle that \<open>Should\<close> returns is not nil.
\<close>

theorem release_never_raises:
  "release_Should v \<noteq> None
   \<and> release_BeNil a = Inr a
   \<and> release_NotBeNil a = Inr a
   \<and> release_TrueFn a f = Inr a
   \<and> release_TrueFn a (GoFunc (Inr False)) = Inr a
   \<and> release_BeTrue a = Inr a
   \<and> release_BeFalse a = Inr a
   \<and> release_BeEqual a expected = Inr a
   \<and> release_NotBeEqual a unexpected = Inr a
   \<and> release_BeEmpty a = Inr a
   \<and> release_NotBeEmpty a = Inr a
   \<and> release_HaveLen a expectedLen = Inr a
   \<and> release_Contain a expectedElement = Inr a
   \<and> release_NotContain a unexpectedElement = Inr a
   \<and> release_ContainSubstring a substring = Inr a
   \<and> release_HavePrefix a pre = Inr a
   \<and> release_HaveSuffix a suf = Inr a
   \<and> release_BeZero a = Inr a
   \<and> release_NotBeZero a = Inr a
   \<and> release_BeGreaterThan a expected = Inr a
   \<and> release_BeLessThan a expected = Inr a
   \<and> release_BeGreaterThanOrEqualTo a expected = Inr a
   \<and> release_BeLessThanOrEqualTo a expected = Inr a
   \<and> release_BeError a = Inr a
   \<and> release_NotBeError a = Inr a
   \<and> release_BeErrorOfType a target = Inr a
   \<and> release_BeErrorOfType a VNil = Inr a
   \<and> release_BeErrorWithMessage a substring = Inr a"
  by (simp add: release_defs release_Should_def)

subsection \<open>Nil-ness\<close>

lemma fail_at_Inl: "\<exists>p. fail_at r l msg = Inl p"
  by (simp add: fail_at_def failAssertion_def Let_def)

lemma fail_at_not_Inr [simp]: "fail_at r l msg \<noteq> Inr a"
  by (simp add: fail_at_def failAssertion_def Let_def)

lemma int_kind_of_cases:
  "int_kind_of k \<in> {reflect_Int, reflect_Int8, reflect_Int16, reflect_Int32, reflect_Int64}"
  by (cases k) simp_all

lemma uint_kind_of_cases:
  "uint_kind_of k \<in> {reflect_Uint, reflect_Uint8, reflect_Uint16, reflect_Uint32, reflect_Uint64,
                      reflect_Uintptr}"
  by (cases k) simp_all

lemma float_kind_of_cases: "float_kind_of k \<in> {reflect_Float32, reflect_Float64}"
  by (cases k) simp_all

lemma complex_kind_of_cases: "complex_kind_of k \<in> {reflect_Complex64, reflect_Complex128}"
  by (cases k) simp_all

lemma isNil_VInt: "\<not> isNil (VInt n ki i)"
  by (cases ki) (simp_all add: isNil_def)

lemma isNil_VUint: "\<not> isNil (VUint n ku u)"
  by (cases ku) (simp_all add: isNil_def)

lemma isNil_VFloat: "\<not> isNil (VFloat n kf x)"
  by (cases kf) (simp_all add: isNil_def)

lemma isNil_VComplex: "\<not> isNil (VComplex n kc x y)"
  by (cases kc) (simp_all add: isNil_def)

lemma isNil_nilable:
  "isNil VNil"
  "isNil (VChan n t h1) = (h1 = None)"
  "isNil (VFunc n ins outs h2) = (h2 = None)"
  "isNil (VIface n ms w) = (w = VNil)"
  "isNil (VMap n kt t h3) = (h3 = None)"
  "isNil (VPtr n t h4) = (h4 = None)"
  "isNil (VSlice n t h5) = (h5 = None)"
  by (simp_all add: isNil_def)

lemma isNil_other:
  "\<not> isNil (VBool n b)"
  "\<not> isNil (VString n s)"
  "\<not> isNil (VUnsafePointer n q)"
  "\<not> isNil (VArray n t xs)"
  "\<not> isNil (VStruct n fs)"
  by (simp_all add: isNil_def)

lemmas isNil_simps = isNil_nilable isNil_other isNil_VInt isNil_VUint isNil_VFloat isNil_VComplex

lemma scalar_kinds:
  "int_kind_of ki \<notin> {reflect_Chan, reflect_Func, reflect_Interface, reflect_Map,
                       reflect_Pointer, reflect_Slice}"
  "uint_kind_of ku \<notin> {reflect_Chan, reflect_Func, reflect_Interface, reflect_Map,
                        reflect_Pointer, reflect_Slice}"
  "float_kind_of kf \<notin> {reflect_Chan, reflect_Func, reflect_Interface, reflect_Map,
                         reflect_Pointer, reflect_Slice}"
  "complex_kind_of kc \<notin> {reflect_Chan, reflect_Func, reflect_Interface, reflect_Map,
                           reflect_Pointer, reflect_Slice}"
proof -
  show "int_kind_of ki \<notin> {reflect_Chan, reflect_Func, reflect_Interface, reflect_Map,
                       reflect_Pointer, reflect_Slice}"
    by (cases ki) simp_all
  show "uint_kind_of ku \<notin> {reflect_Chan, reflect_Func, reflect_Interface, reflect_Map,
                        reflect_Pointer, reflect_Slice}"
    by (cases ku) simp_all
  show "float_kind_of kf \<notin> {reflect_Chan, reflect_Func, reflect_Interface, reflect_Map,
                         reflect_Pointer, reflect_Slice}"
    by (cases kf) simp_all
  show "complex_kind_of kc \<notin> {reflect_Chan, reflect_Func, reflect_Interface, reflect_Map,
                           reflect_Pointer, reflect_Slice}"
    by (cases kc) simp_all
qed

text \<open>
  Claim C2. For every captured value, \<open>NotBeNil\<close> returns its receiver exactly when
  \<open>BeNil\<close> panics, and \<open>BeNil\<close> returns its receiver exactly when \<open>NotBeNil\<close> panics: on no
  value do both pass or both fail.
\<close>

theorem BeNil_NotBeNil_complement:
  "(NotBeNil r (Should v) = Inr (Should v)) = (\<exists>p. BeNil r (Should v) = Inl p)
   \<and> (BeNil r (Should v) = Inr (Should v)) = (\<exists>p. NotBeNil r (Should v) = Inl p)"
  using fail_at_Inl by (auto simp: BeNil_def NotBeNil_def)

text \<open>
  Claim C5. \<open>isNil\<close> is true for the nil interface and for a value of kind channel,
  function, interface, map, pointer or slice whose handle is nil, and false for every
  other value; the values of every other kind, a struct with zero fields among them, are
  not nil whatever they hold.
\<close>

theorem isNil_characterisation:
  "isNil v =
     (v = VNil \<or>
      (Kind v \<in> {reflect_Chan, reflect_Func, reflect_Interface, reflect_Map, reflect_Pointer,
                  reflect_Slice} \<and> IsNil v))
   \<and> isNil VNil
   \<and> isNil (VChan n t h1) = (h1 = None)
   \<and> isNil (VFunc n ins outs h2) = (h2 = None)
   \<and> isNil (VIface n ms w) = (w = VNil)
   \<and> isNil (VMap n kt t h3) = (h3 = None)
   \<and> isNil (VPtr n t h4) = (h4 = None)
   \<and> isNil (VSlice n t h5) = (h5 = None)
   \<and> \<not> isNil (VBool n b) \<and> \<not> isNil (VInt n ki i) \<and> \<not> isNil (VUint n ku u)
   \<and> \<not> isNil (VFloat n kf x) \<and> \<not> isNil (VComplex n kc x y) \<and> \<not> isNil (VString n s)
   \<and> \<not> isNil (VUnsafePointer n q) \<and> \<not> isNil (VArray n t xs) \<and> \<not> isNil (VStruct n fs)
   \<and> \<not> isNil (VStruct n [])"
proof -
  have "isNil v =
     (v = VNil \<or>
      (Kind v \<in> {reflect_Chan, reflect_Func, reflect_Interface, reflect_Map, reflect_Pointer,
                  reflect_Slice} \<and> IsNil v))"
    by (cases v) (simp_all add: isNil_simps scalar_kinds)
  then show ?thesis
    by (simp add: isNil_simps)
qed

end
